theory Spec2Isabelle
  imports Complex_Main
begin

section \<open>AutoViz client orchestration (static/js/app.js)\<close>

text \<open>
  The script keeps three fields (\<open>currentData\<close>, \<open>currentHeaders\<close>, \<open>currentChart\<close>) and
  drives a page through event handlers. The model is explicit state passing: one record
  \<open>world\<close> holds the three fields of \<open>AutoVizApp\<close>, the parts of the page the handlers read
  or write, and a chronological log of what left the script (requests, notifications,
  plotting calls, engaging and releasing a control). Each handler is a function from the
  world before to the world after; the answer of the network is an argument of the handler.
  An \<open>await\<close> is taken as one step: interleaving of two handlers is outside the model.
\<close>

subsection \<open>Values\<close>

text \<open>
  What \<open>response.json()\<close> and \<open>JSON.parse\<close> produce. A number is a rational (every double
  is one, and the zero of either sign is \<open>0\<close>); an object is an association list read with
  \<open>map_of\<close>, its keys distinct as a parsed object's are.
\<close>

datatype json =
    JNull
  | JBool bool
  | JNum rat
  | JStr string
  | JArr "json list"
  | JObj "(string \<times> json) list"

type_synonym row = "(string \<times> json) list"

text \<open>JavaScript truthiness: \<open>null\<close>, \<open>false\<close>, \<open>0\<close> and \<open>""\<close> are falsy.\<close>

fun truthy :: "json \<Rightarrow> bool" where
  "truthy JNull = False"
| "truthy (JBool b) = b"
| "truthy (JNum n) = (n \<noteq> 0)"
| "truthy (JStr s) = (s \<noteq> '''')"
| "truthy (JArr xs) = True"
| "truthy (JObj kvs) = True"

text \<open>
  The decimal digits of a natural number. The script prints this way the length of an array
  and a count of columns, which are below 2^32, and the digits of \<open>toFixed\<close>.
\<close>

fun nat_to_string :: "nat \<Rightarrow> string" where
  "nat_to_string n =
     (if n < 10 then [''0123456789'' ! n]
      else nat_to_string (n div 10) @ [''0123456789'' ! (n mod 10)])"

declare nat_to_string.simps [simp del]

fun join :: "string \<Rightarrow> string list \<Rightarrow> string" where
  "join sep [] = ''''"
| "join sep [s] = s"
| "join sep (s # t # ss) = s @ sep @ join sep (t # ss)"

subsection \<open>What the engine and the plotting library supply\<close>

text \<open>
  Built-ins the script calls, taken as parameters of the model:
  \<^item> \<open>Number_toString\<close>: the text a template literal gives a number (shortest digits that
    read back as the same double, exponent notation from 10^21 on);
  \<^item> \<open>inherited_text\<close>: for a property name, the text a template literal gives the member
    of that name which a parsed object inherits from \<open>Object.prototype\<close> (\<open>constructor\<close>,
    \<open>toString\<close>, \<open>valueOf\<close>, ...), and \<open>None\<close> when it inherits no such member;
  \<^item> \<open>to_primitive_message\<close>: the message of the \<open>TypeError\<close> thrown when an object
    cannot be converted to a string;
  \<^item> \<open>JSON_parse\<close>: \<open>JSON.parse\<close>, \<open>Inl\<close> being the message of the \<open>SyntaxError\<close>;
  \<^item> \<open>Plotly_newPlot_throws\<close>: whether \<open>Plotly.newPlot\<close> throws on its arguments, and
    with which message;
  \<^item> \<open>null_read_message\<close>: the message of the \<open>TypeError\<close> for reading a property of
    \<open>null\<close>.
\<close>

record env =
  Number_toString :: "rat \<Rightarrow> string"
  inherited_text :: "string \<Rightarrow> string option"
  to_primitive_message :: string
  JSON_parse :: "string \<Rightarrow> string + json"
  Plotly_newPlot_throws :: "json option \<Rightarrow> json option \<Rightarrow> string option"
  null_read_message :: string

text \<open>
  \<open>String(v)\<close>, as a template literal applies it; \<open>None\<close> is a thrown \<open>TypeError\<close>. An
  array prints its elements separated by commas, \<open>null\<close> elements as nothing. An object
  prints as \<open>[object Object]\<close> through the inherited \<open>toString\<close>; an object with a key
  \<open>toString\<close> of its own hides it by a value that cannot be called, and since \<open>valueOf\<close>
  (inherited, or hidden the same way) gives no primitive either, the conversion throws.
\<close>

fun js_toString :: "env \<Rightarrow> json \<Rightarrow> string option" where
  "js_toString ev JNull = Some ''null''"
| "js_toString ev (JBool b) = Some (if b then ''true'' else ''false'')"
| "js_toString ev (JNum x) = Some (Number_toString ev x)"
| "js_toString ev (JStr s) = Some s"
| "js_toString ev (JArr xs) =
     map_option (join '','')
       (those (map (\<lambda>x. if x = JNull then Some '''' else js_toString ev x) xs))"
| "js_toString ev (JObj kvs) =
     (if map_of kvs ''toString'' = None then Some ''[object Object]'' else None)"

text \<open>The values a template literal prints without throwing.\<close>

fun printable :: "json \<Rightarrow> bool" where
  "printable (JArr xs) = list_all printable xs"
| "printable (JObj kvs) = (map_of kvs ''toString'' = None)"
| "printable v = True"

definition printable_rows :: "row list \<Rightarrow> bool" where
  "printable_rows rows = list_all (\<lambda>r. list_all (\<lambda>kv. printable (snd kv)) r) rows"

text \<open>Property read \<open>v.k\<close> on a non-null value: \<open>None\<close> is \<open>undefined\<close>.\<close>

fun get_prop :: "json \<Rightarrow> string \<Rightarrow> json option" where
  "get_prop (JObj kvs) k = map_of kvs k"
| "get_prop v k = None"

text \<open>
  \<open>(file.size / 1024).toFixed(1)\<close>: dividing by 1024 is exact in binary floating point, and
  \<open>toFixed(1)\<close> takes the integer \<open>n\<close> nearest to ten times the value, the larger one on a
  tie, and prints \<open>n\<close> with one decimal.
\<close>

definition kb_toFixed1 :: "nat \<Rightarrow> string" where
  "kb_toFixed1 bytes =
     (let n = (20 * bytes + 1024) div 2048
      in nat_to_string (n div 10) @ ''.'' @ nat_to_string (n mod 10))"

text \<open>\<open>toUpperCase\<close> on ASCII letters; other bytes are kept.\<close>

definition toUpperCase :: "string \<Rightarrow> string" where
  "toUpperCase s =
     map (\<lambda>c. if (97::nat) \<le> of_char c \<and> of_char c \<le> (122::nat)
              then char_of (of_char c - (32::nat)) else c) s"

subsection \<open>The page and the world\<close>

datatype elem =
    File_info | Chart_config | Export_options | Data_stats
  | Data_preview | Chart_container | Welcome_screen

datatype ctl = Browse_btn | Generate_chart_btn

record button =
  disabled :: bool
  textContent :: string

text \<open>
  A drop-down \<open>select\<close>: its options as (text, value) in order, and the index of the
  selected one (\<open>None\<close> is \<open>selectedIndex = -1\<close>).
\<close>

record select =
  options :: "(string \<times> string) list"
  selectedIndex :: "nat option"

record js_file =
  name :: string
  size_bytes :: nat

record config =
  chart_type :: string
  x_axis :: string
  y_axis :: string
  color_scheme :: string
  title :: string

datatype request =
    Upload js_file
  | Generate_chart config
  | Export_data string

datatype effect =
    Engage ctl
  | Release ctl
  | Fetch request
  | Notify string string
  | NewPlot "json option" "json option"
  | DownloadImage string
  | SaveAs string

record world =
  currentData :: "row list option"
  currentHeaders :: "string list option"
  currentChart :: json
  browse_btn :: button
  generate_chart_btn :: button
  x_axis_select :: select
  y_axis_select :: select
  chart_type_value :: string
  color_scheme_value :: string
  chart_title_value :: string
  file_input_value :: string
  file_name_text :: string
  file_size_text :: string
  total_rows_text :: string
  total_columns_text :: string
  numeric_columns_text :: string
  categorical_columns_text :: string
  table_header_html :: string
  table_body_html :: string
  hidden :: "elem set"
  trace :: "effect list"

subsection \<open>Answers of the outside\<close>

text \<open>
  What a handler sees of a request: the \<open>await\<close> either throws (the transport failed or the
  body did not parse; the string is \<open>error.message\<close>) or returns the decoded body. The
  bodies are the ones the service's interface gives, every field present with its type.
\<close>

datatype 'a outcome = Throws string | Returns 'a

record response =
  success :: bool
  error :: string

record col_info =
  col_type :: string

record upload_response = response +
  data :: "row list"
  headers :: "string list"
  column_info :: "(string \<times> col_info) list"
  total_rows :: int

record chart_response = response +
  chart :: string

subsection \<open>showLoading and showNotification\<close>

definition set_button :: "ctl \<Rightarrow> button \<Rightarrow> world \<Rightarrow> world" where
  "set_button c b w =
     (case c of Browse_btn \<Rightarrow> w\<lparr>browse_btn := b\<rparr>
              | Generate_chart_btn \<Rightarrow> w\<lparr>generate_chart_btn := b\<rparr>)"

definition emit :: "effect \<Rightarrow> world \<Rightarrow> world" where
  "emit e w = w\<lparr>trace := trace w @ [e]\<rparr>"

text \<open>
  \<open>showLoading(btn)\<close> disables the button, writes the busy label and returns the closure
  that undoes it. The closure writes the constants of the source: \<open>false\<close> and \<open>"Browse"\<close>.
  The log entries \<open>Engage\<close> and \<open>Release\<close> record the two calls.
\<close>

definition hideLoading :: "ctl \<Rightarrow> world \<Rightarrow> world" where
  "hideLoading btn w =
     emit (Release btn) (set_button btn \<lparr>disabled = False, textContent = ''Browse''\<rparr> w)"

definition showLoading :: "ctl \<Rightarrow> world \<Rightarrow> world \<times> (world \<Rightarrow> world)" where
  "showLoading btn w =
     (emit (Engage btn) (set_button btn \<lparr>disabled = True, textContent = ''Loading...''\<rparr> w),
      hideLoading btn)"

text \<open>
  \<open>showNotification(message, type)\<close> appends a banner to the page; its removal after three
  seconds is a timer and is not modelled.
\<close>

definition showNotification :: "string \<Rightarrow> string \<Rightarrow> world \<Rightarrow> world" where
  "showNotification message type w = emit (Notify message type) w"

definition fetch :: "request \<Rightarrow> world \<Rightarrow> world" where
  "fetch r w = emit (Fetch r) w"

definition classList_add :: "elem \<Rightarrow> world \<Rightarrow> world" where
  "classList_add e w = w\<lparr>hidden := insert e (hidden w)\<rparr>"

definition classList_remove :: "elem \<Rightarrow> world \<Rightarrow> world" where
  "classList_remove e w = w\<lparr>hidden := hidden w - {e}\<rparr>"

subsection \<open>Selectors\<close>

fun index_of :: "string \<Rightarrow> (string \<times> string) list \<Rightarrow> nat option" where
  "index_of v [] = None"
| "index_of v (opt # opts) =
     (if snd opt = v then Some 0 else map_option Suc (index_of v opts))"

text \<open>
  Reading \<open>select.value\<close> gives the value of the selected option, or the empty string when
  none is selected; writing it selects the first option with that value, or none.
\<close>

definition select_value :: "select \<Rightarrow> string" where
  "select_value s =
     (case selectedIndex s of
        None \<Rightarrow> ''''
      | Some i \<Rightarrow> if i < length (options s) then snd (options s ! i) else '''')"

definition set_select_value :: "string \<Rightarrow> select \<Rightarrow> select" where
  "set_select_value v s = s\<lparr>selectedIndex := index_of v (options s)\<rparr>"

text \<open>
  \<open>innerHTML = '<option value="">Select column...</option>'\<close>: one option, which a
  drop-down shows as selected.
\<close>

definition placeholder_select :: select where
  "placeholder_select = \<lparr>options = [(''Select column...'', '''')], selectedIndex = Some 0\<rparr>"

text \<open>
  \<open>appendChild(new Option(text, value))\<close>: the option goes last; a drop-down with no
  selected option then selects its first one.
\<close>

definition appendChild :: "string \<times> string \<Rightarrow> select \<Rightarrow> select" where
  "appendChild opt s =
     \<lparr>options = options s @ [opt],
      selectedIndex = (case selectedIndex s of None \<Rightarrow> Some 0 | Some i \<Rightarrow> Some i)\<rparr>"

definition populateColumnSelectors ::
  "string list \<Rightarrow> (string \<times> col_info) list \<Rightarrow> world \<Rightarrow> world" where
  "populateColumnSelectors hs columnInfo w =
     (let w = w\<lparr>x_axis_select := placeholder_select, y_axis_select := placeholder_select\<rparr>;
          w = fold (\<lambda>header w.
                      w\<lparr>x_axis_select := appendChild (header, header) (x_axis_select w),
                        y_axis_select := appendChild (header, header) (y_axis_select w)\<rparr>)
                hs w
      in if length hs \<ge> 2
         then w\<lparr>x_axis_select := set_select_value (hs ! 0) (x_axis_select w),
                y_axis_select := set_select_value (hs ! 1) (y_axis_select w)\<rparr>
         else w)"

subsection \<open>Projections of an upload\<close>

text \<open>The separator of the source between size and row count, as its bytes.\<close>

definition size_rows_separator :: string where
  "size_rows_separator =
     '' '' @ [CHR 0xC3, CHR 0xA2, CHR 0xE2, CHR 0x82, CHR 0xAC, CHR 0xC2, CHR 0xA2] @ '' ''"

definition showFileInfo :: "env \<Rightarrow> js_file \<Rightarrow> int \<Rightarrow> world \<Rightarrow> world" where
  "showFileInfo ev f totalRows w =
     (let w = w\<lparr>file_name_text := name f\<rparr>;
          w = w\<lparr>file_size_text :=
                  kb_toFixed1 (size_bytes f) @ '' KB'' @ size_rows_separator
                    @ Number_toString ev (of_int totalRows) @ '' rows''\<rparr>;
          w = classList_remove File_info w;
          w = classList_remove Chart_config w
      in classList_remove Export_options w)"

definition showDataStats :: "env \<Rightarrow> upload_response \<Rightarrow> world \<Rightarrow> world" where
  "showDataStats ev result w =
     (let w = w\<lparr>total_rows_text := Number_toString ev (of_int (total_rows result))\<rparr>;
          w = w\<lparr>total_columns_text := nat_to_string (length (headers result))\<rparr>;
          numericCols =
            length (filter (\<lambda>col. col_type col = ''numeric'') (map snd (column_info result)));
          categoricalCols =
            length (filter (\<lambda>col. col_type col = ''categorical'') (map snd (column_info result)));
          w = w\<lparr>numeric_columns_text := nat_to_string numericCols\<rparr>;
          w = w\<lparr>categorical_columns_text := nat_to_string categoricalCols\<rparr>
      in classList_remove Data_stats w)"

text \<open>
  One cell of the preview, the source's \<open>row[h] || ""\<close> inside a template literal. The read
  \<open>row[h]\<close> finds the row's own value under the header, else a member the row inherits
  under that name, else \<open>undefined\<close>. A falsy value gives way to the empty string; an
  inherited member is a function or an object, which is truthy. \<open>None\<close> is a thrown
  \<open>TypeError\<close>.
\<close>

definition cell_text :: "env \<Rightarrow> row \<Rightarrow> string \<Rightarrow> string option" where
  "cell_text ev r h =
     (case map_of r h of
        Some v \<Rightarrow> if truthy v then js_toString ev v else Some ''''
      | None \<Rightarrow> (case inherited_text ev h of Some t \<Rightarrow> Some t | None \<Rightarrow> Some ''''))"

definition preview_cell :: "env \<Rightarrow> row \<Rightarrow> string \<Rightarrow> string option" where
  \<open>preview_cell ev r h =
     map_option (\<lambda>t. ''<td class="px-4 py-2 border-b text-gray-600">'' @ t @ ''</td>'')
       (cell_text ev r h)\<close>

definition preview_row :: "env \<Rightarrow> string list \<Rightarrow> row \<Rightarrow> string option" where
  \<open>preview_row ev hs r =
     map_option (\<lambda>cells. ''<tr class="hover:bg-gray-50">'' @ join '''' cells @ ''</tr>'')
       (those (map (preview_cell ev r) hs))\<close>

text \<open>
  The rows of the preview before they are joined: \<open>data.slice(0, 10).map(...)\<close>; \<open>None\<close>
  when printing one of the cells throws.
\<close>

definition preview_rows :: "env \<Rightarrow> row list \<Rightarrow> string list \<Rightarrow> string list option" where
  "preview_rows ev rows hs = those (map (preview_row ev hs) (take 10 rows))"

definition preview_header :: "string list \<Rightarrow> string" where
  \<open>preview_header hs =
     ''<tr>'' @
     join '''' (map (\<lambda>h. ''<th class="px-4 py-2 text-left font-medium text-gray-700 border-b">''
                          @ h @ ''</th>'') hs) @
     ''</tr>''\<close>

text \<open>
  \<open>showDataPreview\<close> writes the header, builds the text of the body and then writes it. A
  throw while the body is built leaves the header written and the rest undone; the second
  component is the message of the error thrown, if any.
\<close>

definition showDataPreview ::
  "env \<Rightarrow> row list \<Rightarrow> string list \<Rightarrow> world \<Rightarrow> world \<times> string option" where
  "showDataPreview ev rows hs w =
     (let w = w\<lparr>table_header_html := preview_header hs\<rparr> in
      case preview_rows ev rows hs of
        None \<Rightarrow> (w, Some (to_primitive_message ev))
      | Some rs \<Rightarrow>
          (let w = w\<lparr>table_body_html := join '''' rs\<rparr>;
               w = classList_remove Data_preview w
           in (classList_add Welcome_screen w, None)))"

subsection \<open>The handlers\<close>

text \<open>The constructor: the three fields start as \<open>null\<close>, on the page as it is loaded.\<close>

definition new_AutoVizApp :: "world \<Rightarrow> world" where
  "new_AutoVizApp page = page\<lparr>currentData := None, currentHeaders := None, currentChart := JNull\<rparr>"

text \<open>
  The body of the \<open>try\<close> of \<open>handleFileUpload\<close>: the world it leaves, and the message of
  the error it threw, if any. A throw inside \<open>showDataPreview\<close> skips the success
  notification.
\<close>

definition handleFileUpload_try ::
  "env \<Rightarrow> js_file \<Rightarrow> upload_response outcome \<Rightarrow> world \<Rightarrow> world \<times> string option" where
  "handleFileUpload_try ev f out w =
     (let w = fetch (Upload f) w in
      case out of
        Throws msg \<Rightarrow> (w, Some msg)
      | Returns result \<Rightarrow>
          if success result then
            (let w = w\<lparr>currentData := Some (data result)\<rparr>;
                 w = w\<lparr>currentHeaders := Some (headers result)\<rparr>;
                 w = showFileInfo ev f (total_rows result) w;
                 w = populateColumnSelectors (headers result) (column_info result) w;
                 w = showDataStats ev result w;
                 (w, thrown) = showDataPreview ev (data result) (headers result) w
             in case thrown of
                  Some msg \<Rightarrow> (w, Some msg)
                | None \<Rightarrow> (showNotification ''File uploaded successfully!'' ''success'' w, None))
          else (showNotification (error result) ''error'' w, None))"

definition handleFileUpload ::
  "env \<Rightarrow> js_file option \<Rightarrow> upload_response outcome \<Rightarrow> world \<Rightarrow> world" where
  "handleFileUpload ev file out w =
     (case file of
        None \<Rightarrow> w
      | Some f \<Rightarrow>
          (let (w, hide) = showLoading Browse_btn w;
               (w, thrown) = handleFileUpload_try ev f out w;
               w = (case thrown of
                      None \<Rightarrow> w
                    | Some msg \<Rightarrow> showNotification (''Upload failed: '' @ msg) ''error'' w)
           in hide w))"

definition read_config :: "world \<Rightarrow> config" where
  "read_config w =
     \<lparr>chart_type = chart_type_value w,
      x_axis = select_value (x_axis_select w),
      y_axis = select_value (y_axis_select w),
      color_scheme = color_scheme_value w,
      title = chart_title_value w\<rparr>"

text \<open>
  The body of the \<open>try\<close> of \<open>generateChart\<close>. The parsed payload is stored before it is
  read: a payload that parses to \<open>null\<close> is stored and the read of \<open>.data\<close> then throws.
\<close>

definition generateChart_try ::
  "env \<Rightarrow> config \<Rightarrow> chart_response outcome \<Rightarrow> world \<Rightarrow> world \<times> string option" where
  "generateChart_try ev cfg out w =
     (let w = fetch (Generate_chart cfg) w in
      case out of
        Throws msg \<Rightarrow> (w, Some msg)
      | Returns result \<Rightarrow>
          if success result then
            (case JSON_parse ev (chart result) of
               Inl msg \<Rightarrow> (w, Some msg)
             | Inr c \<Rightarrow>
                 (let w = w\<lparr>currentChart := c\<rparr> in
                  if c = JNull then (w, Some (null_read_message ev))
                  else
                    (let w = emit (NewPlot (get_prop c ''data'') (get_prop c ''layout'')) w in
                     case Plotly_newPlot_throws ev (get_prop c ''data'') (get_prop c ''layout'') of
                       Some msg \<Rightarrow> (w, Some msg)
                     | None \<Rightarrow>
                         (let w = classList_remove Chart_container w;
                              w = classList_add Welcome_screen w
                          in (showNotification ''Chart generated successfully!'' ''success'' w,
                              None)))))
          else (showNotification (error result) ''error'' w, None))"

definition generateChart :: "env \<Rightarrow> chart_response outcome \<Rightarrow> world \<Rightarrow> world" where
  "generateChart ev out w =
     (let cfg = read_config w in
      if x_axis cfg = '''' then showNotification ''Please select X-axis column'' ''error'' w
      else
        (let (w, hide) = showLoading Generate_chart_btn w;
             (w, thrown) = generateChart_try ev cfg out w;
             w = (case thrown of
                    None \<Rightarrow> w
                  | Some msg \<Rightarrow>
                      showNotification (''Chart generation failed: '' @ msg) ''error'' w)
         in hide w))"

definition exportChart :: "string \<Rightarrow> world \<Rightarrow> world" where
  "exportChart format w =
     (if \<not> truthy (currentChart w) then showNotification ''No chart to export'' ''error'' w
      else if format = ''png'' then
        (let w = emit (DownloadImage
                         (if chart_title_value w = '''' then ''chart'' else chart_title_value w)) w
         in showNotification ''Chart exported as PNG'' ''success'' w)
      else w)"

text \<open>\<open>exportData\<close>: the answer is whether \<open>response.ok\<close> held.\<close>

definition exportData :: "string \<Rightarrow> bool outcome \<Rightarrow> world \<Rightarrow> world" where
  "exportData format out w =
     (if currentData w = None then showNotification ''No data to export'' ''error'' w
      else
        (let w = fetch (Export_data format) w in
         case out of
           Throws msg \<Rightarrow> showNotification (''Export failed: '' @ msg) ''error'' w
         | Returns ok \<Rightarrow>
             if ok then
               (let w = emit (SaveAs (''autoviz_data.'' @ format)) w
                in showNotification (''Data exported as '' @ toUpperCase format) ''success'' w)
             else showNotification ''Export failed'' ''error'' w))"

definition resetApp :: "world \<Rightarrow> world" where
  "resetApp w =
     (let w = w\<lparr>currentData := None\<rparr>;
          w = w\<lparr>currentHeaders := None\<rparr>;
          w = w\<lparr>currentChart := JNull\<rparr>;
          w = classList_add File_info w;
          w = classList_add Chart_config w;
          w = classList_add Export_options w;
          w = classList_add Data_stats w;
          w = classList_add Data_preview w;
          w = classList_add Chart_container w;
          w = classList_remove Welcome_screen w
      in w\<lparr>file_input_value := ''''\<rparr>)"

subsection \<open>Reading the log\<close>

fun is_Fetch :: "effect \<Rightarrow> bool" where
  "is_Fetch (Fetch r) = True"
| "is_Fetch e = False"

fun is_Notify :: "effect \<Rightarrow> bool" where
  "is_Notify (Notify m t) = True"
| "is_Notify e = False"

fun is_error_Notify :: "effect \<Rightarrow> bool" where
  "is_error_Notify (Notify m t) = (t = ''error'')"
| "is_error_Notify e = False"

fun is_DownloadImage :: "effect \<Rightarrow> bool" where
  "is_DownloadImage (DownloadImage n) = True"
| "is_DownloadImage e = False"

definition requests :: "world \<Rightarrow> effect list" where
  "requests w = filter is_Fetch (trace w)"

definition notifications :: "world \<Rightarrow> effect list" where
  "notifications w = filter is_Notify (trace w)"

definition errors_shown :: "world \<Rightarrow> effect list" where
  "errors_shown w = filter is_error_Notify (trace w)"

definition downloads :: "world \<Rightarrow> effect list" where
  "downloads w = filter is_DownloadImage (trace w)"

definition releases :: "ctl \<Rightarrow> world \<Rightarrow> nat" where
  "releases c w = count_list (trace w) (Release c)"

text \<open>The three stored fields of the application.\<close>

definition stored :: "world \<Rightarrow> row list option \<times> string list option \<times> json" where
  "stored w = (currentData w, currentHeaders w, currentChart w)"

text \<open>A selector after it was cleared and filled with one option for each header.\<close>

definition populated :: "string list \<Rightarrow> select" where
  "populated hs =
     \<lparr>options = (''Select column...'', '''') # map (\<lambda>h. (h, h)) hs, selectedIndex = Some 0\<rparr>"

subsection \<open>A page and answers to evaluate on\<close>

text \<open>
  The markup of the page is not part of the script. The page below is one the script can
  run on: the upload control labelled \<open>Browse\<close>, the chart control labelled
  \<open>Generate Chart\<close>, both selectors without options, every section but the welcome screen
  hidden.
\<close>

definition example_page :: world where
  "example_page =
     \<lparr>currentData = None, currentHeaders = None, currentChart = JNull,
      browse_btn = \<lparr>disabled = False, textContent = ''Browse''\<rparr>,
      generate_chart_btn = \<lparr>disabled = False, textContent = ''Generate Chart''\<rparr>,
      x_axis_select = \<lparr>options = [], selectedIndex = None\<rparr>,
      y_axis_select = \<lparr>options = [], selectedIndex = None\<rparr>,
      chart_type_value = ''bar'', color_scheme_value = ''viridis'', chart_title_value = '''',
      file_input_value = '''', file_name_text = '''', file_size_text = '''',
      total_rows_text = '''', total_columns_text = '''', numeric_columns_text = '''',
      categorical_columns_text = '''', table_header_html = '''', table_body_html = '''',
      hidden = {File_info, Chart_config, Export_options, Data_stats, Data_preview,
                Chart_container},
      trace = []\<rparr>"

definition example_file :: js_file where
  "example_file = \<lparr>name = ''sales.csv'', size_bytes = 2048\<rparr>"

definition example_rows :: "row list" where
  "example_rows =
     [[(''A'', JNum 42), (''B'', JStr ''x''), (''C'', JNum 0)],
      [(''A'', JNum 2), (''B'', JNull), (''C'', JBool False)]]"

definition example_upload :: upload_response where
  "example_upload =
     \<lparr>success = True, error = '''', data = example_rows, headers = [''A'', ''B'', ''C''],
      column_info = [(''A'', \<lparr>col_type = ''numeric''\<rparr>),
                     (''B'', \<lparr>col_type = ''categorical''\<rparr>),
                     (''C'', \<lparr>col_type = ''numeric''\<rparr>)],
      total_rows = 2\<rparr>"

definition one_header_upload :: upload_response where
  "one_header_upload =
     \<lparr>success = True, error = '''', data = [[(''A'', JNum 1)]], headers = [''A''],
      column_info = [(''A'', \<lparr>col_type = ''numeric''\<rparr>)], total_rows = 1\<rparr>"


text \<open>One row whose cell is the object \<open>{"toString": 1}\<close>.\<close>

definition unprintable_upload :: upload_response where
  "unprintable_upload =
     \<lparr>success = True, error = '''', data = [[(''A'', JObj [(''toString'', JNum 1)])]],
      headers = [''A''],
      column_info = [(''A'', \<lparr>col_type = ''categorical''\<rparr>)], total_rows = 1\<rparr>"

text \<open>
  An engine to evaluate on. Its number printer is the engine's on the integers of magnitude
  below 2^53, which are the only numbers the examples print; on other numbers it is only a
  stand-in. Its inherited members are those of the standard \<open>Object.prototype\<close>, printed
  as V8 prints them.
\<close>

definition small_integer_text :: "rat \<Rightarrow> string" where
  "small_integer_text x =
     (if x < 0 then ''-'' @ nat_to_string (nat \<lfloor>- x\<rfloor>) else nat_to_string (nat \<lfloor>x\<rfloor>))"

definition Object_prototype_text :: "string \<Rightarrow> string option" where
  "Object_prototype_text =
     map_of
       [(''constructor'', ''function Object() { [native code] }''),
        (''toString'', ''function toString() { [native code] }''),
        (''toLocaleString'', ''function toLocaleString() { [native code] }''),
        (''valueOf'', ''function valueOf() { [native code] }''),
        (''hasOwnProperty'', ''function hasOwnProperty() { [native code] }''),
        (''isPrototypeOf'', ''function isPrototypeOf() { [native code] }''),
        (''propertyIsEnumerable'', ''function propertyIsEnumerable() { [native code] }''),
        (''__defineGetter__'', ''function __defineGetter__() { [native code] }''),
        (''__defineSetter__'', ''function __defineSetter__() { [native code] }''),
        (''__lookupGetter__'', ''function __lookupGetter__() { [native code] }''),
        (''__lookupSetter__'', ''function __lookupSetter__() { [native code] }''),
        (''__proto__'', ''[object Object]'')]"

definition example_env :: env where
  "example_env =
     \<lparr>Number_toString = small_integer_text,
      inherited_text = Object_prototype_text,
      to_primitive_message = ''Cannot convert object to primitive value'',
      JSON_parse = (\<lambda>s. if s = ''{}'' then Inr (JObj []) else Inl ''Unexpected token''),
      Plotly_newPlot_throws = (\<lambda>d l. None),
      null_read_message = ''Cannot read properties of null''\<rparr>"

definition bad_chart_response :: chart_response where
  "bad_chart_response = \<lparr>success = True, error = '''', chart = ''{oops''\<rparr>"

definition good_chart_response :: chart_response where
  "good_chart_response = \<lparr>success = True, error = '''', chart = ''{}''\<rparr>"

text \<open>The application after one successful upload, and after a reset that follows it.\<close>

definition example_loaded :: world where
  "example_loaded =
     handleFileUpload example_env (Some example_file) (Returns example_upload)
       (new_AutoVizApp example_page)"

definition example_reset :: world where
  "example_reset = resetApp example_loaded"

definition example_rendered :: world where
  "example_rendered = generateChart example_env (Returns good_chart_response) example_loaded"


section \<open>Properties\<close>

subsection \<open>Selectors\<close>

lemma fold_appendChild_world:
  "fold (\<lambda>header w.
           w\<lparr>x_axis_select := appendChild (header, header) (x_axis_select w),
             y_axis_select := appendChild (header, header) (y_axis_select w)\<rparr>) hs w
   = w\<lparr>x_axis_select := fold (\<lambda>h. appendChild (h, h)) hs (x_axis_select w),
       y_axis_select := fold (\<lambda>h. appendChild (h, h)) hs (y_axis_select w)\<rparr>"
  by (induction hs arbitrary: w) simp_all

lemma fold_appendChild_select:
  "fold (\<lambda>h. appendChild (h, h)) hs \<lparr>options = os, selectedIndex = Some i\<rparr>
   = \<lparr>options = os @ map (\<lambda>h. (h, h)) hs, selectedIndex = Some i\<rparr>"
  by (induction hs arbitrary: os) (simp_all add: appendChild_def)

text \<open>The loop of \<open>populateColumnSelectors\<close> in closed form.\<close>

lemma populateColumnSelectors_eq:
  "populateColumnSelectors hs ci w =
     w\<lparr>x_axis_select :=
         (if 2 \<le> length hs then set_select_value (hs ! 0) (populated hs) else populated hs),
       y_axis_select :=
         (if 2 \<le> length hs then set_select_value (hs ! 1) (populated hs) else populated hs)\<rparr>"
  by (simp add: populateColumnSelectors_def Let_def fold_appendChild_world placeholder_select_def
      fold_appendChild_select populated_def)

lemma index_of_Some:
  "index_of v os = Some i \<Longrightarrow> i < length os \<and> snd (os ! i) = v"
  by (induction os arbitrary: i) (auto split: if_splits)

lemma index_of_None:
  "index_of v os = None \<Longrightarrow> v \<notin> snd ` set os"
  by (induction os) (auto split: if_splits)

text \<open>Writing a value that some option carries and reading it back gives that value.\<close>

lemma select_value_set:
  "v \<in> snd ` set (options s) \<Longrightarrow> select_value (set_select_value v s) = v"
  using index_of_Some[of v "options s"] index_of_None[of v "options s"]
  by (cases "index_of v (options s)") (auto simp: select_value_def set_select_value_def)

lemma nth_in_populated:
  "i < length hs \<Longrightarrow> hs ! i \<in> snd ` set (options (populated hs))"
  by (auto simp: populated_def image_iff intro!: disjI2)

subsection \<open>Printing the cells\<close>

lemma join_Nil: "sep = [] \<Longrightarrow> join sep xs = concat xs"
  by (induction sep xs rule: join.induct) simp_all

lemma join_empty: "join '''' xs = concat xs"
  by (simp add: join_Nil)

lemma those_map_Some:
  "(\<And>x. x \<in> set xs \<Longrightarrow> f x = Some (g x)) \<Longrightarrow> those (map f xs) = Some (map g xs)"
  by (induction xs) simp_all

lemma those_map_the:
  "(\<And>x. x \<in> set xs \<Longrightarrow> f x \<noteq> None) \<Longrightarrow> those (map f xs) = Some (map (\<lambda>x. the (f x)) xs)"
  by (rule those_map_Some) auto

text \<open>A printable value prints: the template literal does not throw on it.\<close>

lemma printable_js_toString: "printable v \<Longrightarrow> js_toString ev v \<noteq> None"
proof (induction v)
  case (JArr xs)
  have "(if x = JNull then Some '''' else js_toString ev x) \<noteq> None" if "x \<in> set xs" for x
    using JArr that by (auto simp: list_all_iff)
  then have "those (map (\<lambda>x. if x = JNull then Some '''' else js_toString ev x) xs) \<noteq> None"
    using those_map_the [of xs "\<lambda>x. if x = JNull then Some '''' else js_toString ev x"] by simp
  then show ?case by simp
qed simp_all

lemma cell_text_printable:
  assumes "list_all (\<lambda>kv. printable (snd kv)) r"
  shows "cell_text ev r h \<noteq> None"
proof (cases "map_of r h")
  case None
  then show ?thesis by (simp add: cell_text_def split: option.splits)
next
  case (Some v)
  then have "(h, v) \<in> set r" by (rule map_of_SomeD)
  then have "printable v" using assms by (auto simp: list_all_iff)
  then show ?thesis
    using Some printable_js_toString [of v ev] by (auto simp: cell_text_def)
qed

lemma preview_row_printable:
  assumes "list_all (\<lambda>kv. printable (snd kv)) r"
  shows \<open>preview_row ev hs r =
           Some (''<tr class="hover:bg-gray-50">'' @
                 concat (map (\<lambda>c. ''<td class="px-4 py-2 border-b text-gray-600">'' @ c @ ''</td>'')
                           (map (\<lambda>h. the (cell_text ev r h)) hs)) @
                 ''</tr>'')\<close>
proof -
  have "preview_cell ev r h \<noteq> None" for h
    using cell_text_printable [OF assms, of ev h] by (simp add: preview_cell_def)
  then have "those (map (preview_cell ev r) hs) = Some (map (\<lambda>h. the (preview_cell ev r h)) hs)"
    by (intro those_map_the) simp
  moreover have \<open>the (preview_cell ev r h) =
      ''<td class="px-4 py-2 border-b text-gray-600">'' @ the (cell_text ev r h) @ ''</td>''\<close> for h
    using cell_text_printable [OF assms, of ev h] by (auto simp: preview_cell_def)
  ultimately show ?thesis
    by (simp add: preview_row_def join_empty comp_def)
qed

lemma preview_rows_printable:
  assumes "printable_rows rows"
  shows \<open>preview_rows ev rows hs =
           Some (map (\<lambda>cs. ''<tr class="hover:bg-gray-50">'' @
                            concat (map (\<lambda>c. ''<td class="px-4 py-2 border-b text-gray-600">'' @ c
                                               @ ''</td>'') cs) @
                            ''</tr>'')
                   (map (\<lambda>r. map (\<lambda>h. the (cell_text ev r h)) hs) (take 10 rows)))\<close>
proof -
  have "list_all (\<lambda>kv. printable (snd kv)) r" if "r \<in> set (take 10 rows)" for r
    using assms that by (auto simp: printable_rows_def list_all_iff dest: in_set_takeD)
  then show ?thesis
    unfolding preview_rows_def map_map comp_def
    by (intro those_map_Some) (simp add: preview_row_printable comp_def)
qed

subsection \<open>What the handlers leave behind\<close>

lemmas handler_defs =
  handleFileUpload_def handleFileUpload_try_def generateChart_def generateChart_try_def
  showLoading_def hideLoading_def fetch_def emit_def set_button_def showNotification_def
  showDataPreview_def showDataStats_def showFileInfo_def populateColumnSelectors_eq
  classList_add_def classList_remove_def read_config_def Let_def

lemma upload_selectors:
  "success r \<Longrightarrow> x_axis_select (handleFileUpload ev (Some f) (Returns r) w)
     = (if 2 \<le> length (headers r) then set_select_value (headers r ! 0) (populated (headers r))
        else populated (headers r))"
  "success r \<Longrightarrow> y_axis_select (handleFileUpload ev (Some f) (Returns r) w)
     = (if 2 \<le> length (headers r) then set_select_value (headers r ! 1) (populated (headers r))
        else populated (headers r))"
  by (simp_all add: handler_defs split: option.splits)


text \<open>
  When printing a cell throws, the body is left as it was, the preview stays hidden and the
  only notification is the error of the \<open>catch\<close>; data, headers and selectors were written
  before the throw.
\<close>

lemma upload_preview_throws:
  assumes "success r" and "preview_rows ev (data r) (headers r) = None"
  shows "table_body_html (handleFileUpload ev (Some f) (Returns r) w) = table_body_html w"
    and "trace (handleFileUpload ev (Some f) (Returns r) w) =
           trace w @ [Engage Browse_btn, Fetch (Upload f),
                      Notify (''Upload failed: '' @ to_primitive_message ev) ''error'',
                      Release Browse_btn]"
    and "currentData (handleFileUpload ev (Some f) (Returns r) w) = Some (data r)"
  using assms by (simp_all add: handler_defs)

lemma upload_page_values:
  "chart_type_value (handleFileUpload ev file out w) = chart_type_value w"
  "color_scheme_value (handleFileUpload ev file out w) = color_scheme_value w"
  "chart_title_value (handleFileUpload ev file out w) = chart_title_value w"
  "generate_chart_btn (handleFileUpload ev file out w) = generate_chart_btn w"
  by (simp_all add: handler_defs split: option.splits outcome.splits)

lemma resetApp_fields:
  "currentData (resetApp w) = None"
  "currentHeaders (resetApp w) = None"
  "currentChart (resetApp w) = JNull"
  "x_axis_select (resetApp w) = x_axis_select w"
  "y_axis_select (resetApp w) = y_axis_select w"
  "chart_type_value (resetApp w) = chart_type_value w"
  "color_scheme_value (resetApp w) = color_scheme_value w"
  "chart_title_value (resetApp w) = chart_title_value w"
  "trace (resetApp w) = trace w"
  by (simp_all add: resetApp_def classList_add_def classList_remove_def)

text \<open>
  The chart handler sends one request exactly when the X selector has a value, whatever is
  stored and whatever the answer is.
\<close>

lemma generateChart_requests:
  "requests (generateChart ev out w) =
     (if select_value (x_axis_select w) = '''' then requests w
      else requests w @ [Fetch (Generate_chart (read_config w))])"
  by (simp add: requests_def generateChart_def generateChart_try_def showLoading_def hideLoading_def
        fetch_def emit_def set_button_def showNotification_def classList_add_def classList_remove_def
        read_config_def Let_def
      split: outcome.splits sum.splits option.splits ctl.splits)

text \<open>
  The closure returned by \<open>showLoading\<close> is called once on every path of both handlers
  that engage a control: the network threw, the service refused, the payload did not parse,
  the plot or the preview threw, or all went well.
\<close>

lemma generateChart_releases:
  "releases Generate_chart_btn (generateChart ev out w) =
     (if select_value (x_axis_select w) = '''' then releases Generate_chart_btn w
      else Suc (releases Generate_chart_btn w))"
  by (simp add: releases_def generateChart_def generateChart_try_def showLoading_def hideLoading_def
        fetch_def emit_def set_button_def showNotification_def classList_add_def classList_remove_def
        read_config_def Let_def
      split: outcome.splits sum.splits option.splits ctl.splits)

lemma handleFileUpload_releases:
  "releases Browse_btn (handleFileUpload ev (Some f) out w) = Suc (releases Browse_btn w)"
  by (simp add: releases_def handler_defs split: outcome.splits option.splits)

text \<open>After any chart request the chart control is enabled and carries the label "Browse".\<close>

lemma generateChart_button_after:
  "select_value (x_axis_select w) \<noteq> '''' \<Longrightarrow>
   generate_chart_btn (generateChart ev out w) = \<lparr>disabled = False, textContent = ''Browse''\<rparr>"
  by (simp add: generateChart_def generateChart_try_def showLoading_def hideLoading_def
        fetch_def emit_def set_button_def showNotification_def classList_add_def classList_remove_def
        read_config_def Let_def
      split: outcome.splits sum.splits option.splits)

lemma handleFileUpload_button_after:
  "browse_btn (handleFileUpload ev (Some f) out w) = \<lparr>disabled = False, textContent = ''Browse''\<rparr>"
  by (simp add: handler_defs split: outcome.splits option.splits)

lemma exportChart_errors_shown:
  "errors_shown (exportChart format w) =
     (if truthy (currentChart w) then errors_shown w
      else errors_shown w @ [Notify ''No chart to export'' ''error''])"
  by (simp add: exportChart_def showNotification_def emit_def errors_shown_def Let_def)

lemma truthy_iff: "truthy v = (v \<notin> {JNum 0, JNull, JBool False, JStr ''''})"
  by (cases v) auto

text \<open>A key the row does not have, under a name it inherits a member for, is not blank.\<close>

lemma preview_cell_inherited:
  \<open>map_of r h = None \<Longrightarrow> inherited_text ev h = Some t \<Longrightarrow>
   preview_cell ev r h = Some (''<td class="px-4 py-2 border-b text-gray-600">'' @ t @ ''</td>'')\<close>
  by (simp add: preview_cell_def cell_text_def)


subsection \<open>The example worlds\<close>

lemma example_upload_success: "success example_upload"
  by (simp add: example_upload_def)

lemma example_upload_printable: "printable_rows (data example_upload)"
  by (simp add: example_upload_def example_rows_def printable_rows_def)

lemma upload_success_trace:
  "success r \<Longrightarrow> printable_rows (data r) \<Longrightarrow>
   trace (handleFileUpload ev (Some f) (Returns r) w) =
     trace w @ [Engage Browse_btn, Fetch (Upload f),
                Notify ''File uploaded successfully!'' ''success'', Release Browse_btn]"
  by (simp add: handleFileUpload_def handleFileUpload_try_def showLoading_def hideLoading_def
      fetch_def emit_def set_button_def showNotification_def showDataPreview_def showDataStats_def
      showFileInfo_def populateColumnSelectors_eq classList_add_def classList_remove_def Let_def
      preview_rows_printable)

lemma example_loaded_x_axis: "select_value (x_axis_select example_loaded) = ''A''"
  by (simp add: example_loaded_def upload_selectors example_upload_def populated_def
      set_select_value_def select_value_def)

lemma example_loaded_y_axis: "select_value (y_axis_select example_loaded) = ''B''"
  by (simp add: example_loaded_def upload_selectors example_upload_def populated_def
      set_select_value_def select_value_def)

lemma example_loaded_x_axis_nonempty: "select_value (x_axis_select example_loaded) \<noteq> ''''"
  by (simp add: example_loaded_x_axis)

lemma example_loaded_trace:
  "trace example_loaded =
     [Engage Browse_btn, Fetch (Upload example_file),
      Notify ''File uploaded successfully!'' ''success'', Release Browse_btn]"
  by (simp add: example_loaded_def upload_success_trace example_upload_success
      example_upload_printable new_AutoVizApp_def example_page_def)

lemma example_loaded_generate_btn:
  "generate_chart_btn example_loaded = \<lparr>disabled = False, textContent = ''Generate Chart''\<rparr>"
  by (simp add: example_loaded_def upload_page_values new_AutoVizApp_def example_page_def)

lemma example_reset_data: "currentData example_reset = None"
  by (simp add: example_reset_def resetApp_fields)

lemma example_reset_x_axis: "select_value (x_axis_select example_reset) = ''A''"
  by (simp add: example_reset_def resetApp_fields example_loaded_x_axis)

lemma example_reset_requests: "requests example_reset = [Fetch (Upload example_file)]"
  by (simp add: example_reset_def resetApp_fields requests_def example_loaded_trace)

lemma example_reset_config:
  "read_config example_reset =
     \<lparr>chart_type = ''bar'', x_axis = ''A'', y_axis = ''B'', color_scheme = ''viridis'',
      title = ''''\<rparr>"
  by (simp add: read_config_def example_reset_def resetApp_fields example_loaded_x_axis
      example_loaded_y_axis)
     (simp add: example_loaded_def upload_page_values new_AutoVizApp_def example_page_def)

lemma example_rendered_chart: "currentChart example_rendered = JObj []"
  by (simp add: example_rendered_def generateChart_def generateChart_try_def showLoading_def
      hideLoading_def fetch_def emit_def set_button_def showNotification_def classList_add_def
      classList_remove_def read_config_def Let_def example_loaded_x_axis example_env_def
      good_chart_response_def)

lemma example_rendered_truthy: "truthy (currentChart example_rendered)"
  by (simp add: example_rendered_chart)



lemma example_env_parse_bad:
  "JSON_parse example_env (chart bad_chart_response) = Inl ''Unexpected token''"
  by (simp add: example_env_def bad_chart_response_def)

lemma bad_chart_response_success: "success bad_chart_response"
  by (simp add: bad_chart_response_def)

lemma svg_not_png: "''svg'' \<noteq> ''png''"
  by simp

text \<open>
  An upload whose one cell is the object \<open>{"toString": 1}\<close>: printing the cell throws, the
  body of the preview is not written and the user is told that the upload failed.
\<close>

lemma unprintable_upload_throws:
  "table_body_html (handleFileUpload example_env (Some example_file) (Returns unprintable_upload)
                      example_page) = ''''"
  "notifications (handleFileUpload example_env (Some example_file) (Returns unprintable_upload)
                    example_page)
     = [Notify ''Upload failed: Cannot convert object to primitive value'' ''error'']"
proof -
  have s: "success unprintable_upload"
    by (simp add: unprintable_upload_def)
  have n: "preview_rows example_env (data unprintable_upload) (headers unprintable_upload) = None"
    by (simp add: unprintable_upload_def preview_rows_def preview_row_def preview_cell_def
        cell_text_def)
  show "table_body_html (handleFileUpload example_env (Some example_file)
                           (Returns unprintable_upload) example_page) = ''''"
    by (simp add: upload_preview_throws(1) [OF s n] example_page_def)
  show "notifications (handleFileUpload example_env (Some example_file)
                         (Returns unprintable_upload) example_page)
          = [Notify ''Upload failed: Cannot convert object to primitive value'' ''error'']"
    unfolding notifications_def upload_preview_throws(2) [OF s n]
    by (simp add: example_page_def example_env_def)
qed

section \<open>The claims\<close>

text \<open>
  C1. Claimed: after a successful upload the stored chart is null, whether or not a chart had
  been generated before. The success path of \<open>handleFileUpload\<close> writes \<open>currentData\<close> and
  \<open>currentHeaders\<close> and never \<open>currentChart\<close>; a chart stored before the upload is still
  stored after it. What holds: a successful upload leaves the stored chart as it was.
\<close>

theorem upload_success_keeps_chart:
  "success r \<Longrightarrow> currentChart (handleFileUpload ev (Some f) (Returns r) w) = currentChart w"
  by (simp add: handler_defs split: option.splits)

theorem upload_success_keeps_chart_witness:
  "success example_upload \<and>
   currentChart (handleFileUpload example_env (Some example_file) (Returns example_upload)
                   (example_page\<lparr>currentChart := JObj []\<rparr>)) = JObj []"
  using upload_success_keeps_chart [OF example_upload_success, of example_env example_file
      "example_page\<lparr>currentChart := JObj []\<rparr>"]
  by (simp add: example_upload_def)

theorem upload_clears_chart_counterexample:
  "success example_upload \<and>
   currentChart (example_page\<lparr>currentChart := JObj []\<rparr>) \<noteq> JNull \<and>
   currentChart (handleFileUpload example_env (Some example_file) (Returns example_upload)
                   (example_page\<lparr>currentChart := JObj []\<rparr>)) \<noteq> JNull"
  by (simp add: handler_defs example_upload_def split: option.splits)

text \<open>
  C2. Claimed: the release function is called exactly once on every exit path of Upload and
  GenerateChart, and calling it restores the control's original enabled state and original
  label, for whichever control was engaged. The count holds on every path
  (\<open>generateChart_releases\<close>, \<open>handleFileUpload_releases\<close>). The label does not: the closure
  writes the constant "Browse", the label of the upload control. On a page whose chart
  control reads "Generate Chart", after one upload and one chart request, the closure was
  called once and the chart control reads "Browse".
\<close>

theorem generateChart_release_label_Browse:
  "textContent (generate_chart_btn example_loaded) = ''Generate Chart'' \<and>
   releases Generate_chart_btn example_loaded = 0 \<and>
   releases Generate_chart_btn example_rendered = 1 \<and>
   textContent (generate_chart_btn example_rendered) = ''Browse'' \<and>
   textContent (generate_chart_btn example_rendered)
     \<noteq> textContent (generate_chart_btn example_loaded)"
proof -
  have before: "releases Generate_chart_btn example_loaded = 0"
    by (simp add: releases_def example_loaded_trace)
  have "releases Generate_chart_btn example_rendered
          = Suc (releases Generate_chart_btn example_loaded)"
    by (simp add: example_rendered_def generateChart_releases example_loaded_x_axis)
  then have once: "releases Generate_chart_btn example_rendered = 1"
    by (simp add: before)
  have after:
    "generate_chart_btn example_rendered = \<lparr>disabled = False, textContent = ''Browse''\<rparr>"
    by (simp add: example_rendered_def generateChart_button_after example_loaded_x_axis)
  show ?thesis
    by (simp add: before once after example_loaded_generate_btn)
qed

text \<open>
  C3. Claimed: an upload without a file issues no network call, leaves the stored state
  unchanged and shows an error notification. The guard \<open>if (!file) return\<close> returns before
  anything else runs: no request and no change, and also no notification. What holds: an
  upload without a file changes nothing at all, whatever the world and the network.
\<close>

theorem upload_without_file_is_identity:
  "handleFileUpload ev None out w = w"
  by (simp add: handleFileUpload_def)

theorem upload_without_file_notifies_counterexample:
  "errors_shown (handleFileUpload example_env None (Returns example_upload)
                   (new_AutoVizApp example_page)) = [] \<and>
   notifications (handleFileUpload example_env None (Returns example_upload)
                    (new_AutoVizApp example_page)) = []"
  by (simp add: handleFileUpload_def notifications_def errors_shown_def new_AutoVizApp_def
      example_page_def)

text \<open>
  C4. Claimed: with no dataset stored, GenerateChart sends no chart request, for every
  configuration. \<open>generateChart\<close> never reads \<open>currentData\<close>; its one guard is the value of
  the X selector. \<open>resetApp\<close> clears the stored data and leaves the selectors as they were,
  so after an upload and a reset the X selector still reads "A" and a chart request is
  sent. What holds: with no dataset stored, a chart request is sent exactly when the X
  selector is not empty, and then it is one request carrying the configuration read from
  the page.
\<close>

theorem generateChart_without_dataset:
  "currentData w = None \<Longrightarrow>
   requests (generateChart ev out w) =
     (if select_value (x_axis_select w) = '''' then requests w
      else requests w @ [Fetch (Generate_chart (read_config w))])"
  by (rule generateChart_requests)

theorem generateChart_without_dataset_witness:
  "currentData example_reset = None \<and>
   requests (generateChart example_env (Returns good_chart_response) example_reset) =
     [Fetch (Upload example_file),
      Fetch (Generate_chart \<lparr>chart_type = ''bar'', x_axis = ''A'', y_axis = ''B'',
                              color_scheme = ''viridis'', title = ''''\<rparr>)]"
  using generateChart_without_dataset [OF example_reset_data, of example_env
      "Returns good_chart_response"]
  by (simp add: example_reset_config example_reset_data example_reset_x_axis
      example_reset_requests)

theorem generateChart_without_dataset_counterexample:
  "currentData example_reset = None \<and>
   Fetch (Generate_chart \<lparr>chart_type = ''bar'', x_axis = ''A'', y_axis = ''B'',
                           color_scheme = ''viridis'', title = ''''\<rparr>)
     \<in> set (requests (generateChart example_env (Returns good_chart_response) example_reset))"
  by (simp add: generateChart_requests example_reset_config example_reset_data
      example_reset_x_axis)

text \<open>
  C5. Whenever the X selector reads the empty string, GenerateChart sends no request, shows
  exactly one error notification and leaves data, headers and chart as they were; nothing
  else of the world changes either.
\<close>

theorem generateChart_empty_x_axis:
  assumes "select_value (x_axis_select w) = ''''"
  shows "requests (generateChart ev out w) = requests w \<and>
         notifications (generateChart ev out w)
           = notifications w @ [Notify ''Please select X-axis column'' ''error''] \<and>
         stored (generateChart ev out w) = stored w \<and>
         generateChart ev out w
           = w\<lparr>trace := trace w @ [Notify ''Please select X-axis column'' ''error'']\<rparr>"
  using assms
  by (simp add: generateChart_def read_config_def showNotification_def emit_def requests_def
      notifications_def stored_def)

theorem generateChart_empty_x_axis_witness:
  "select_value (x_axis_select (new_AutoVizApp example_page)) = '''' \<and>
   requests (generateChart example_env (Returns good_chart_response)
               (new_AutoVizApp example_page)) = [] \<and>
   notifications (generateChart example_env (Returns good_chart_response)
                    (new_AutoVizApp example_page))
     = [Notify ''Please select X-axis column'' ''error''] \<and>
   stored (generateChart example_env (Returns good_chart_response)
             (new_AutoVizApp example_page))
     = (None, None, JNull)"
  using generateChart_empty_x_axis [of "new_AutoVizApp example_page" example_env
      "Returns good_chart_response"]
  by (simp add: new_AutoVizApp_def example_page_def select_value_def requests_def
      notifications_def stored_def)

text \<open>
  C6. After a successful upload with at least two headers the X selector reads the first
  header and the Y selector the second; with fewer than two headers both selectors read the
  empty string, the placeholder option being the selected one.
\<close>

theorem upload_selector_defaults:
  assumes "success r"
  shows "(let w' = handleFileUpload ev (Some f) (Returns r) w in
          if 2 \<le> length (headers r)
          then select_value (x_axis_select w') = headers r ! 0 \<and>
               select_value (y_axis_select w') = headers r ! 1
          else select_value (x_axis_select w') = '''' \<and>
               select_value (y_axis_select w') = '''' \<and>
               selectedIndex (x_axis_select w') = Some 0 \<and>
               selectedIndex (y_axis_select w') = Some 0)"
proof (cases "2 \<le> length (headers r)")
  case True
  then have "0 < length (headers r)" "1 < length (headers r)" by auto
  then have "headers r ! 0 \<in> snd ` set (options (populated (headers r)))"
    and "headers r ! 1 \<in> snd ` set (options (populated (headers r)))"
    by (simp_all only: nth_in_populated)
  then show ?thesis
    using True assms by (simp add: Let_def upload_selectors select_value_set)
next
  case False
  then show ?thesis
    using assms by (simp add: Let_def upload_selectors populated_def select_value_def)
qed

theorem upload_selector_defaults_witness:
  "success example_upload \<and> success one_header_upload \<and>
   select_value (x_axis_select (handleFileUpload example_env (Some example_file)
                                  (Returns example_upload) example_page)) = ''A'' \<and>
   select_value (y_axis_select (handleFileUpload example_env (Some example_file)
                                  (Returns example_upload) example_page)) = ''B'' \<and>
   select_value (x_axis_select (handleFileUpload example_env (Some example_file)
                                  (Returns one_header_upload) example_loaded)) = '''' \<and>
   select_value (y_axis_select (handleFileUpload example_env (Some example_file)
                                  (Returns one_header_upload) example_loaded)) = ''''"
  using upload_selector_defaults [of example_upload example_env example_file example_page]
    upload_selector_defaults [of one_header_upload example_env example_file example_loaded]
  by (simp add: example_upload_def one_header_upload_def Let_def)



text \<open>
  C8. When a chart request is answered with \<open>success = true\<close> and a payload that
  \<open>JSON.parse\<close> rejects, the three stored fields keep their values (the old chart is not
  overwritten), the log gains the engagement, the request, exactly one error notification
  carrying the parser's message, and the release, in this order, and the chart control is
  enabled again.
\<close>

theorem generateChart_invalid_payload:
  assumes "select_value (x_axis_select w) \<noteq> ''''"
    and "success r"
    and "JSON_parse ev (chart r) = Inl msg"
  shows "stored (generateChart ev (Returns r) w) = stored w \<and>
         trace (generateChart ev (Returns r) w) =
           trace w @ [Engage Generate_chart_btn, Fetch (Generate_chart (read_config w)),
                      Notify (''Chart generation failed: '' @ msg) ''error'',
                      Release Generate_chart_btn] \<and>
         disabled (generate_chart_btn (generateChart ev (Returns r) w)) = False"
  using assms
  by (simp add: stored_def generateChart_def generateChart_try_def showLoading_def
      hideLoading_def fetch_def emit_def set_button_def showNotification_def read_config_def
      Let_def)

theorem generateChart_invalid_payload_witness:
  "select_value (x_axis_select example_loaded) \<noteq> '''' \<and>
   success bad_chart_response \<and>
   JSON_parse example_env (chart bad_chart_response) = Inl ''Unexpected token'' \<and>
   stored (generateChart example_env (Returns bad_chart_response) example_loaded)
     = stored example_loaded \<and>
   trace (generateChart example_env (Returns bad_chart_response) example_loaded) =
     trace example_loaded @
       [Engage Generate_chart_btn, Fetch (Generate_chart (read_config example_loaded)),
        Notify ''Chart generation failed: Unexpected token'' ''error'',
        Release Generate_chart_btn]"
  using generateChart_invalid_payload [OF example_loaded_x_axis_nonempty
      bad_chart_response_success example_env_parse_bad]
  by (simp add: example_loaded_x_axis bad_chart_response_success example_env_parse_bad)



text \<open>
  C10. With a chart stored (a value the test \<open>!this.currentChart\<close> lets through) and a
  format other than "png", \<open>exportChart\<close> changes nothing: no download, no notification.
  For every format and world, an error notification is added exactly when no chart is
  stored.
\<close>

theorem exportChart_unsupported_format_silent:
  assumes "format \<noteq> ''png''" and "truthy (currentChart w)"
  shows "exportChart format w = w \<and>
         downloads (exportChart format w) = downloads w \<and>
         notifications (exportChart format w) = notifications w \<and>
         errors_shown (exportChart any_format any_w) =
           (if truthy (currentChart any_w) then errors_shown any_w
            else errors_shown any_w @ [Notify ''No chart to export'' ''error''])"
proof -
  have "exportChart format w = w"
    using assms by (simp add: exportChart_def)
  then show ?thesis
    by (simp add: exportChart_errors_shown)
qed

theorem exportChart_unsupported_format_silent_witness:
  "''svg'' \<noteq> ''png'' \<and> truthy (currentChart example_rendered) \<and>
   exportChart ''svg'' example_rendered = example_rendered \<and>
   downloads (exportChart ''svg'' example_rendered) = downloads example_rendered \<and>
   notifications (exportChart ''svg'' example_rendered) = notifications example_rendered"
  using exportChart_unsupported_format_silent [OF svg_not_png example_rendered_truthy]
  by (simp add: example_rendered_truthy)

end
